theory Spec2Isabelle
  imports Complex_Main "HOL-Library.Sublist"
begin

section \<open>JavaScript primitives used by the services\<close>

text \<open>
  Numbers are modelled as exact rationals: the embedding covers finite numeric inputs and
  leaves binary floating-point representation error out, so a computed figure is the
  code's figure wherever every intermediate value is exactly representable. Strings are byte lists; case
  folding and trimming act on the ASCII range, which covers every string literal of the
  sources (the curated table and the class mapping table).
\<close>

datatype js_error = NetworkError | ApiError nat | SyntaxError | TypeError | ModelError

text \<open>\<^verbatim>\<open>Math.round(x)\<close>: the nearest integer, halves going up.\<close>

definition Math_round :: "rat \<Rightarrow> int" where
  "Math_round x = \<lfloor>x + 1 / 2\<rfloor>"

text \<open>The idiom \<^verbatim>\<open>Math.round(x * 10) / 10\<close> of both services.\<close>

definition round1 :: "rat \<Rightarrow> rat" where
  "round1 x = of_int (Math_round (x * 10)) / 10"

definition lower_char :: "char \<Rightarrow> char" where
  "lower_char c =
     (case map_of (zip ''ABCDEFGHIJKLMNOPQRSTUVWXYZ'' ''abcdefghijklmnopqrstuvwxyz'') c of
        Some d \<Rightarrow> d
      | None \<Rightarrow> c)"

definition toLowerCase :: "string \<Rightarrow> string" where
  "toLowerCase s = map lower_char s"

fun startsWith :: "string \<Rightarrow> string \<Rightarrow> bool" where
  "startsWith s [] = True"
| "startsWith [] (c # cs) = False"
| "startsWith (a # as) (c # cs) = (a = c \<and> startsWith as cs)"

text \<open>\<^verbatim>\<open>s.includes(t)\<close>: \<open>t\<close> occurs in \<open>s\<close> as a contiguous substring.\<close>

fun includes_str :: "string \<Rightarrow> string \<Rightarrow> bool" where
  "includes_str [] t = (t = [])"
| "includes_str (c # cs) t = (startsWith (c # cs) t \<or> includes_str cs t)"

definition is_space :: "char \<Rightarrow> bool" where
  "is_space c = (c \<in> set [CHR '' '', CHR 0x09, CHR 0x0A, CHR 0x0B, CHR 0x0C, CHR 0x0D])"

definition trim :: "string \<Rightarrow> string" where
  "trim s = rev (dropWhile is_space (rev (dropWhile is_space s)))"

text \<open>\<^verbatim>\<open>s.split(/[,/]/)\<close>: always at least one piece, empty pieces are kept.\<close>

fun split_sep :: "string \<Rightarrow> string list" where
  "split_sep [] = [[]]"
| "split_sep (c # cs) =
     (if c = CHR '','' \<or> c = CHR ''/'' then [] # split_sep cs
      else (c # hd (split_sep cs)) # tl (split_sep cs))"

text \<open>Decimal rendering of an array index, as a template literal produces it.\<close>

function show_nat :: "nat \<Rightarrow> string" where
  "show_nat n =
     (if n < 10 then [''0123456789'' ! n]
      else show_nat (n div 10) @ [''0123456789'' ! (n mod 10)])"
  by pat_completeness auto
termination
  by (relation "measure (\<lambda>n. n)") auto

declare show_nat.simps [simp del]

text \<open>\<^verbatim>\<open>x || d\<close> on an optional number (\<open>undefined\<close> and \<open>0\<close> are falsy) and on an
  optional string (\<open>undefined\<close> and the empty string are falsy).\<close>

definition or_num :: "rat option \<Rightarrow> rat \<Rightarrow> rat" where
  "or_num x d = (case x of None \<Rightarrow> d | Some v \<Rightarrow> if v = 0 then d else v)"

definition or_str :: "string option \<Rightarrow> string \<Rightarrow> string" where
  "or_str x d = (case x of None \<Rightarrow> d | Some s \<Rightarrow> if s = [] then d else s)"

section \<open>Data model\<close>

text \<open>
  A raw Open Food Facts product is a JSON object: every field may be absent from the
  payload, a nutrient figure that is present is a number, and a code, name, brand or image
  that is present is a string.
\<close>

record raw_nutriments =
  proteins_100g :: "rat option"
  proteins :: "rat option"
  serving_size :: "rat option"
  proteins_serving :: "rat option"

record raw_product =
  code :: "string option"
  product_name :: "string option"
  brands :: "string option"
  nutriments :: "raw_nutriments option"
  image_front_small_url :: "string option"

text \<open>
  The food item objects passed around by the services. Fields that only some producers
  set are optional (\<open>None\<close> is JavaScript's \<open>undefined\<close>, or \<open>null\<close> for the image).
  \<open>item_id\<close> is the field \<open>id\<close> and \<open>image_url\<close> the field \<open>image\<close>.
\<close>

record food_item =
  item_id :: "string option"
  name :: string
  brand :: "string option"
  protein :: rat
  proteinPerServing :: "rat option"
  servingSize :: rat
  servingUnit :: string
  source :: string
  image_url :: "string option"
  confidence :: "int option"
  originalClass :: "string option"

section \<open>nutritionApi.js\<close>

subsection \<open>transformProduct\<close>

definition no_nutriments :: raw_nutriments where
  "no_nutriments =
     \<lparr>proteins_100g = None, proteins = None, serving_size = None, proteins_serving = None\<rparr>"

definition transformProduct :: "raw_product \<Rightarrow> food_item" where
  "transformProduct product =
     (let n = (case nutriments product of None \<Rightarrow> no_nutriments | Some m \<Rightarrow> m);
          proteinPer100g = or_num (proteins_100g n) (or_num (proteins n) 0);
          servSize = or_num (serving_size n) 100;
          perServing = or_num (proteins_serving n) (proteinPer100g * servSize / 100)
      in \<lparr>item_id = code product,
          name = or_str (product_name product) ''Unknown Product'',
          brand = Some (or_str (brands product) ''''),
          protein = round1 proteinPer100g,
          proteinPerServing = Some (round1 perServing),
          servingSize = servSize,
          servingUnit = ''g'',
          source = ''openfoodfacts'',
          image_url = (case image_front_small_url product of
                         None \<Rightarrow> None
                       | Some u \<Rightarrow> if u = [] then None else Some u),
          confidence = None,
          originalClass = None\<rparr>)"

subsection \<open>searchFoods\<close>

text \<open>
  The seen-set filter of \<open>searchFoods\<close>: a product is kept when its code has not been
  seen, and its code is then added to the set.
\<close>

fun filter_seen :: "string option set \<Rightarrow> raw_product list \<Rightarrow> raw_product list" where
  "filter_seen seen [] = []"
| "filter_seen seen (product # rest) =
     (if code product \<in> seen then filter_seen seen rest
      else product # filter_seen (insert (code product) seen) rest)"

text \<open>Lines 42 to 51 of \<open>searchFoods\<close>: combine, deduplicate, transform, keep positive protein.\<close>

definition mergeProducts :: "raw_product list \<Rightarrow> raw_product list \<Rightarrow> food_item list" where
  "mergeProducts dataProducts textProducts =
     (let allProducts = dataProducts @ textProducts;
          uniqueProducts = filter_seen {} allProducts
      in filter (\<lambda>item. protein item > 0) (map transformProduct uniqueProducts))"

text \<open>
  The network: each request either rejects or yields a response with a status flag and a
  body; reading the body as JSON may itself reject, and the parsed value may be \<open>null\<close> or
  an object whose \<open>products\<close> field may be absent.
\<close>

datatype json_data = JsonNull | JsonObject "raw_product list option"

record response =
  ok :: bool
  status :: nat
  json :: "js_error + json_data"

datatype request = StructuredSearch string nat nat | TextSearch string nat nat

type_synonym network = "request \<Rightarrow> js_error + response"

text \<open>\<^verbatim>\<open>data.products || []\<close>; reading a property of \<open>null\<close> throws.\<close>

fun products_or_empty :: "json_data \<Rightarrow> js_error + raw_product list" where
  "products_or_empty JsonNull = Inl TypeError"
| "products_or_empty (JsonObject None) = Inr []"
| "products_or_empty (JsonObject (Some ps)) = Inr ps"

text \<open>The body of the \<open>try\<close> block of \<open>searchFoods\<close>; \<open>Inl\<close> is a thrown error.\<close>

definition searchFoods_try :: "network \<Rightarrow> string \<Rightarrow> nat \<Rightarrow> nat \<Rightarrow> js_error + food_item list" where
  "searchFoods_try fetch query page pageSize =
     (case fetch (StructuredSearch query page pageSize) of
        Inl e \<Rightarrow> Inl e
      | Inr resp \<Rightarrow>
          if \<not> ok resp then Inl (ApiError (status resp))
          else (case json resp of
                  Inl e \<Rightarrow> Inl e
                | Inr data \<Rightarrow>
                    (case fetch (TextSearch query page pageSize) of
                       Inl e \<Rightarrow> Inl e
                     | Inr textResponse \<Rightarrow>
                         (case (if ok textResponse then json textResponse
                                else Inr (JsonObject (Some []))) of
                            Inl e \<Rightarrow> Inl e
                          | Inr textData \<Rightarrow>
                              (case products_or_empty data of
                                 Inl e \<Rightarrow> Inl e
                               | Inr dataProducts \<Rightarrow>
                                   (case products_or_empty textData of
                                      Inl e \<Rightarrow> Inl e
                                    | Inr textProducts \<Rightarrow>
                                        Inr (mergeProducts dataProducts textProducts)))))))"

text \<open>\<open>searchFoods\<close>: the \<open>catch\<close> clause turns every thrown error into the empty array, so
  the promise always fulfils.\<close>

definition searchFoods :: "network \<Rightarrow> string \<Rightarrow> nat \<Rightarrow> nat \<Rightarrow> js_error + food_item list" where
  "searchFoods fetch query page pageSize =
     (case searchFoods_try fetch query page pageSize of
        Inl e \<Rightarrow> Inr []
      | Inr items \<Rightarrow> Inr items)"

subsection \<open>COMMON_FOODS and searchCommonFoods\<close>

definition common :: "string \<Rightarrow> rat \<Rightarrow> rat \<Rightarrow> string \<Rightarrow> food_item" where
  "common nm p sz unit =
     \<lparr>item_id = None, name = nm, brand = None, protein = p, proteinPerServing = None,
      servingSize = sz, servingUnit = unit, source = ''common'', image_url = None,
      confidence = None, originalClass = None\<rparr>"

definition COMMON_FOODS :: "food_item list" where
  "COMMON_FOODS =
     [common ''Chicken Breast (cooked)'' 31 100 ''g'',
      common ''Turkey Breast (cooked)'' 30 100 ''g'',
      common ''Lean Beef (cooked)'' 26 100 ''g'',
      common ''Salmon (cooked)'' 25 100 ''g'',
      common ''Tuna (canned)'' 26 100 ''g'',
      common ''Egg (whole)'' 6 1 ''egg'',
      common ''Egg White'' (36 / 10) 1 ''egg'',
      common ''Greek Yogurt'' 10 100 ''g'',
      common ''Cottage Cheese'' 11 100 ''g'',
      common ''Milk (whole)'' (32 / 10) 100 ''ml'',
      common ''Whey Protein Powder'' 25 30 ''g'',
      common ''Tofu (firm)'' 8 100 ''g'',
      common ''Lentils (cooked)'' 9 100 ''g'',
      common ''Black Beans (cooked)'' (89 / 10) 100 ''g'',
      common ''Chickpeas (cooked)'' (89 / 10) 100 ''g'',
      common ''Quinoa (cooked)'' (44 / 10) 100 ''g'',
      common ''Almonds'' 21 100 ''g'',
      common ''Peanut Butter'' 25 100 ''g'',
      common ''Cottage Cheese'' 11 100 ''g'',
      common ''Shrimp (cooked)'' 24 100 ''g'',
      common ''Tilapia (cooked)'' 26 100 ''g'',
      common ''Ground Turkey (cooked)'' 27 100 ''g'',
      common ''Ground Beef 90% (cooked)'' 26 100 ''g'',
      common ''Protein Bar'' 20 1 ''bar'',
      common ''Edamame (cooked)'' 11 100 ''g'',
      common ''Tempeh'' 19 100 ''g'',
      common ''Seitan'' 25 100 ''g'',
      common ''Pumpkin Seeds'' 19 100 ''g'',
      common ''Chia Seeds'' 17 100 ''g'',
      common ''Hemp Seeds'' 31 100 ''g'']"

text \<open>The \<open>map\<close> callback of \<open>searchCommonFoods\<close>: the index is the position in the filtered array.\<close>

definition with_common_id :: "nat \<times> food_item \<Rightarrow> food_item" where
  "with_common_id p = (snd p)\<lparr>item_id := Some (''common-'' @ show_nat (fst p))\<rparr>"

definition searchCommonFoods :: "string \<Rightarrow> food_item list" where
  "searchCommonFoods query =
     (let lowerQuery = toLowerCase query
      in map with_common_id
           (enumerate 0 (filter (\<lambda>food. includes_str (toLowerCase (name food)) lowerQuery)
                           COMMON_FOODS)))"

subsection \<open>searchAllFoods\<close>

text \<open>The \<open>forEach\<close> loop: an API result is pushed unless some common result has the same
  lower-cased name.\<close>

definition push_unless_duplicate :: "food_item list \<Rightarrow> food_item \<Rightarrow> food_item list \<Rightarrow> food_item list" where
  "push_unless_duplicate commonResults apiFood combined =
     (let isDuplicate =
            list_ex (\<lambda>c. toLowerCase (name c) = toLowerCase (name apiFood)) commonResults
      in if \<not> isDuplicate then combined @ [apiFood] else combined)"

definition searchAllFoods :: "network \<Rightarrow> string \<Rightarrow> js_error + food_item list" where
  "searchAllFoods fetch query =
     (let commonResults = searchCommonFoods query;
          apiResults = (case searchFoods fetch query 1 20 of
                          Inl e \<Rightarrow> []
                        | Inr items \<Rightarrow> items)
      in Inr (fold (push_unless_duplicate commonResults) apiResults commonResults))"

section \<open>constants.js\<close>

definition MIN_CONFIDENCE :: rat where
  "MIN_CONFIDENCE = 3 / 10"

definition MAX_RESULTS :: nat where
  "MAX_RESULTS = 3"

text \<open>\<open>FOOD_CLASS_MAPPINGS\<close> in the insertion order that \<open>Object.entries\<close> iterates:
  key, display name, protein.\<close>

definition FOOD_CLASS_MAPPINGS :: "(string \<times> string \<times> rat) list" where
  "FOOD_CLASS_MAPPINGS =
     [
      (''banana'', ''Banana'', (11 / 10)),
      (''pizza'', ''Pizza'', 12),
      (''hamburger'', ''Hamburger'', 17),
      (''hotdog'', ''Hot Dog'', 10),
      (''burrito'', ''Burrito'', 15),
      (''cheeseburger'', ''Cheeseburger'', 18),
      (''meat loaf'', ''Meatloaf'', 22),
      (''French loaf'', ''Bread'', 9),
      (''bagel'', ''Bagel'', 10),
      (''pretzel'', ''Pretzel'', 8),
      (''carbonara'', ''Carbonara'', 14),
      (''chicken'', ''Chicken'', 27),
      (''eggnog'', ''Eggnog'', 5),
      (''ice cream'', ''Ice Cream'', 3),
      (''cheese'', ''Cheese'', 25),
      (''eggs'', ''Eggs'', 13),
      (''breakfast'', ''Breakfast Plate'', 20),
      (''guacamole'', ''Guacamole'', 2),
      (''mixed vegetables'', ''Mixed Vegetables'', 3),
      (''salad'', ''Salad'', 2),
      (''steak'', ''Steak'', 26),
      (''fish'', ''Fish'', 22),
      (''salmon'', ''Salmon'', 25),
      (''shrimp'', ''Shrimp'', 24),
      (''lobster'', ''Lobster'', 24),
      (''crab'', ''Crab'', 19),
      (''sushi'', ''Sushi'', 7),
      (''taco'', ''Taco'', 12),
      (''sandwich'', ''Sandwich'', 15),
      (''pancake'', ''Pancakes'', 6),
      (''waffle'', ''Waffle'', 7),
      (''omelette'', ''Omelette'', 14),
      (''scrambled eggs'', ''Scrambled Eggs'', 13),
      (''bacon'', ''Bacon'', 37),
      (''sausage'', ''Sausage'', 18),
      (''yogurt'', ''Yogurt'', 10),
      (''cottage cheese'', ''Cottage Cheese'', 11),
      (''peanut butter'', ''Peanut Butter'', 25),
      (''almond'', ''Almonds'', 21),
      (''peanut'', ''Peanuts'', 26),
      (''walnut'', ''Walnuts'', 15),
      (''cashew'', ''Cashews'', 18),
      (''pumpkin seed'', ''Pumpkin Seeds'', 19),
      (''sunflower seed'', ''Sunflower Seeds'', 21),
      (''tofu'', ''Tofu'', 8),
      (''tempeh'', ''Tempeh'', 19),
      (''lentil'', ''Lentils'', 9),
      (''bean'', ''Beans'', 9),
      (''chickpea'', ''Chickpeas'', 9),
      (''quinoa'', ''Quinoa'', (44 / 10)),
      (''rice'', ''Rice'', (27 / 10)),
      (''pasta'', ''Pasta'', 5),
      (''noodle'', ''Noodles'', 5),
      (''soup'', ''Soup'', 6),
      (''stew'', ''Stew'', 15),
      (''curry'', ''Curry'', 12),
      (''dumpling'', ''Dumplings'', 8),
      (''spring roll'', ''Spring Roll'', 5),
      (''kebab'', ''Kebab'', 20),
      (''meatball'', ''Meatballs'', 18),
      (''pot roast'', ''Pot Roast'', 25),
      (''ribs'', ''Ribs'', 23),
      (''pork chop'', ''Pork Chop'', 25),
      (''lamb'', ''Lamb'', 25),
      (''venison'', ''Venison'', 26),
      (''turkey'', ''Turkey'', 29),
      (''duck'', ''Duck'', 19),
      (''goose'', ''Goose'', 25)]"

section \<open>foodRecognition.js\<close>

record prediction =
  className :: string
  probability :: rat

subsection \<open>mapToFoodItem\<close>

text \<open>The \<open>for\<close> loop returns at the first entry whose lower-cased key occurs in the
  lower-cased class name, and \<open>null\<close> (\<open>None\<close>) when no entry does.\<close>

definition mapToFoodItem :: "prediction \<Rightarrow> food_item option" where
  "mapToFoodItem pred =
     (let lowerName = toLowerCase (className pred)
      in case find (\<lambda>entry. includes_str lowerName (toLowerCase (fst entry)))
                FOOD_CLASS_MAPPINGS of
           None \<Rightarrow> None
         | Some (key, val) \<Rightarrow>
             Some \<lparr>item_id = Some (''recognized-'' @ key),
                   name = fst val,
                   brand = None,
                   protein = snd val,
                   proteinPerServing = None,
                   servingSize = 100,
                   servingUnit = ''g'',
                   source = ''recognition'',
                   image_url = None,
                   confidence = Some (Math_round (probability pred * 100)),
                   originalClass = Some (className pred)\<rparr>)"

subsection \<open>fuzzyMatchFoods\<close>

text \<open>The inner loop over the keywords: the first keyword with a non-empty common-food
  search yields that search's first result, and the loop breaks.\<close>

fun first_keyword_match :: "string list \<Rightarrow> food_item option" where
  "first_keyword_match [] = None"
| "first_keyword_match (keyword # rest) =
     (case searchCommonFoods keyword of
        [] \<Rightarrow> first_keyword_match rest
      | bestMatch # others \<Rightarrow> Some bestMatch)"

text \<open>The outer loop over the predictions, with the \<open>results\<close> array as accumulator.\<close>

fun fuzzy_loop :: "prediction list \<Rightarrow> food_item list \<Rightarrow> food_item list" where
  "fuzzy_loop [] results = results"
| "fuzzy_loop (pred # rest) results =
     (if probability pred < MIN_CONFIDENCE then fuzzy_loop rest results
      else let lowerName = toLowerCase (className pred);
               keywords = map trim (split_sep lowerName)
           in case first_keyword_match keywords of
                None \<Rightarrow> fuzzy_loop rest results
              | Some bestMatch \<Rightarrow>
                  fuzzy_loop rest
                    (results @
                     [bestMatch\<lparr>source := ''recognition'',
                                confidence := Some (Math_round (probability pred * 100)),
                                originalClass := Some (className pred)\<rparr>]))"

definition fuzzyMatchFoods :: "prediction list \<Rightarrow> food_item list" where
  "fuzzyMatchFoods predictions = take MAX_RESULTS (fuzzy_loop predictions [])"

subsection \<open>recognizeFood\<close>

text \<open>Lines 66 to 69: the direct mappings of the predictions at or above the threshold.\<close>

definition foodResults :: "prediction list \<Rightarrow> food_item list" where
  "foodResults predictions =
     map the
       (filter (\<lambda>item. item \<noteq> None)
          (map mapToFoodItem
             (filter (\<lambda>pred. probability pred \<ge> MIN_CONFIDENCE) predictions)))"

text \<open>Lines 71 to 77: the fuzzy results are pushed when there is no direct mapping and the
  classifier returned something.\<close>

definition recognize_predictions :: "prediction list \<Rightarrow> food_item list" where
  "recognize_predictions predictions =
     (if length (foodResults predictions) = 0 \<and> length predictions > 0
      then foodResults predictions @ fuzzyMatchFoods predictions
      else foodResults predictions)"

text \<open>
  The classifier is external: loading it may fail, and a loaded model maps an image and a
  result count to its predictions, or fails. \<open>recognizeFood\<close> rethrows either failure.
\<close>

definition recognizeFood ::
  "js_error + ('img \<Rightarrow> nat \<Rightarrow> js_error + prediction list) \<Rightarrow> 'img \<Rightarrow> js_error + food_item list" where
  "recognizeFood loadModel imageElement =
     (case loadModel of
        Inl e \<Rightarrow> Inl e
      | Inr loadedModel \<Rightarrow>
          (case loadedModel imageElement MAX_RESULTS of
             Inl e \<Rightarrow> Inl e
           | Inr predictions \<Rightarrow> Inr (recognize_predictions predictions)))"

section \<open>FoodSearch component: calculateProtein\<close>

text \<open>The component state read by \<open>calculateProtein\<close>: the selected food, if any, and the
  chosen serving size. \<^verbatim>\<open>selectedFood.servingSize || 100\<close> replaces a zero size by 100.\<close>

definition calculateProtein :: "food_item option \<Rightarrow> rat \<Rightarrow> rat" where
  "calculateProtein selectedFood chosenSize =
     (case selectedFood of
        None \<Rightarrow> 0
      | Some food \<Rightarrow>
          (let ratio = chosenSize / (if servingSize food = 0 then 100 else servingSize food)
           in of_int (Math_round (protein food * ratio * 10)) / 10))"

section \<open>Concrete inputs\<close>

text \<open>Raw products with a given code, name and protein per 100 g, and nothing else.\<close>

definition product_with :: "string \<Rightarrow> string \<Rightarrow> rat \<Rightarrow> raw_product" where
  "product_with c nm p =
     \<lparr>code = Some c, product_name = Some nm, brands = None,
      nutriments = Some \<lparr>proteins_100g = Some p, proteins = None, serving_size = None,
                         proteins_serving = None\<rparr>,
      image_front_small_url = None\<rparr>"

text \<open>A product whose source reports a negative protein figure.\<close>

definition negative_protein_product :: raw_product where
  "negative_protein_product = product_with ''0001'' ''Mislabelled'' (- 5)"

text \<open>A product without a nutrient map, name, brand or image.\<close>

definition bare_product :: raw_product where
  "bare_product =
     \<lparr>code = Some ''0002'', product_name = None, brands = None, nutriments = None,
      image_front_small_url = None\<rparr>"

text \<open>A product with 10 g of protein per 100 g and a declared serving size of 30 g.\<close>

definition serving_30_product :: raw_product where
  "serving_30_product =
     \<lparr>code = Some ''0003'', product_name = Some ''Oat Bar'', brands = None,
      nutriments = Some \<lparr>proteins_100g = Some 10, proteins = None, serving_size = Some 30,
                         proteins_serving = None\<rparr>,
      image_front_small_url = None\<rparr>"

text \<open>The curated chicken breast as \<open>searchCommonFoods\<close> returns it at index 0.\<close>

definition curated_chicken :: food_item where
  "curated_chicken =
     (common ''Chicken Breast (cooked)'' 31 100 ''g'')\<lparr>item_id := Some ''common-0''\<rparr>"

text \<open>Responses and networks.\<close>

definition ok_response :: "raw_product list \<Rightarrow> response" where
  "ok_response ps = \<lparr>ok = True, status = 200, json = Inr (JsonObject (Some ps))\<rparr>"

definition error_response :: response where
  "error_response = \<lparr>ok = False, status = 503, json = Inl SyntaxError\<rparr>"



text \<open>Both queries answer; the structured query knows a lower-cased chicken breast and a
  soup, the text query knows the soup under another name and a third product.\<close>

definition fetch_chicken :: network where
  "fetch_chicken req =
     (case req of
        StructuredSearch q pg sz \<Rightarrow>
          Inr (ok_response [product_with ''X100'' ''chicken breast (cooked)'' (312 / 10),
                            product_with ''X123'' ''Chicken Soup'' 4])
      | TextSearch q pg sz \<Rightarrow>
          Inr (ok_response [product_with ''X123'' ''Soup with chicken'' 5,
                            product_with ''X200'' ''Chicken Nuggets'' 15]))"

text \<open>The structured query rejects although the text query would answer.\<close>

definition fetch_primary_down :: network where
  "fetch_primary_down req =
     (case req of
        StructuredSearch q pg sz \<Rightarrow> Inl NetworkError
      | TextSearch q pg sz \<Rightarrow> Inr (ok_response [product_with ''X200'' ''Chicken Nuggets'' 15]))"

text \<open>The structured query answers with a non-success status although the text query
  would answer.\<close>

definition fetch_primary_rejected :: network where
  "fetch_primary_rejected req =
     (case req of
        StructuredSearch q pg sz \<Rightarrow> Inr error_response
      | TextSearch q pg sz \<Rightarrow> Inr (ok_response [product_with ''X200'' ''Chicken Nuggets'' 15]))"

text \<open>The structured query answers and the text query returns a non-success status.\<close>

definition fetch_secondary_rejected :: network where
  "fetch_secondary_rejected req =
     (case req of
        StructuredSearch q pg sz \<Rightarrow> Inr (ok_response [product_with ''X123'' ''Chicken Soup'' 4])
      | TextSearch q pg sz \<Rightarrow> Inr error_response)"

text \<open>Classifier outputs.\<close>

definition pred :: "string \<Rightarrow> rat \<Rightarrow> prediction" where
  "pred label p = \<lparr>className = label, probability = p\<rparr>"

definition pizza_and_tilapia :: "prediction list" where
  "pizza_and_tilapia = [pred ''pizza, pizza pie'' (6 / 10), pred ''tilapia'' (5 / 10)]"

definition tilapia_and_edamame :: "prediction list" where
  "tilapia_and_edamame = [pred ''tilapia'' (5 / 10), pred ''edamame'' (4 / 10)]"

definition low_confidence :: "prediction list" where
  "low_confidence = [pred ''pizza, pizza pie'' (2 / 10), pred ''tilapia'' (1 / 10)]"

definition two_crabs :: "prediction list" where
  "two_crabs =
     [pred ''rock crab, Cancer irroratus'' (5 / 10),
      pred ''Dungeness crab, Cancer magister'' (4 / 10)]"

text \<open>A ranking of four classes whose probabilities add up to one.\<close>

definition ranked_foods :: "prediction list" where
  "ranked_foods =
     [pred ''pizza, pizza pie'' (34 / 100), pred ''cheeseburger'' (33 / 100),
      pred ''bagel, beigel'' (31 / 100), pred ''pretzel'' (2 / 100)]"

text \<open>A loaded model that ranks four classes and returns as many as it is asked for.\<close>

definition top_k_model :: "unit \<Rightarrow> nat \<Rightarrow> js_error + prediction list" where
  "top_k_model img k =
     Inr (take k ranked_foods)"

section \<open>The seen-set filter and the result merger\<close>

lemma filter_seen_subset: "set (filter_seen seen ps) \<subseteq> set ps"
  by (induction ps arbitrary: seen) auto

lemma filter_seen_fresh: "p \<in> set (filter_seen seen ps) \<Longrightarrow> code p \<notin> seen"
  by (induction ps arbitrary: seen) (auto split: if_splits)

lemma filter_seen_distinct: "distinct (map code (filter_seen seen ps))"
  by (induction ps arbitrary: seen) (auto dest: filter_seen_fresh)

lemma filter_seen_subseq: "subseq (filter_seen seen ps) ps"
  by (induction ps arbitrary: seen) auto

text \<open>A product that survives the filter is the first product of the input with its code.\<close>

lemma filter_seen_first:
  "p \<in> set (filter_seen seen ps) \<Longrightarrow> find (\<lambda>q. code q = code p) ps = Some p"
  by (induction ps arbitrary: seen) (auto split: if_splits dest: filter_seen_fresh)

lemma item_id_transformProduct: "item_id (transformProduct p) = code p"
  by (simp add: transformProduct_def Let_def)

lemma mergeProducts_eq:
  "mergeProducts A B =
     map transformProduct
       (filter (\<lambda>p. protein (transformProduct p) > 0) (filter_seen {} (A @ B)))"
  by (simp add: mergeProducts_def Let_def filter_map comp_def)

lemma find_append_left:
  "find P (xs @ ys) = Some p \<Longrightarrow> (\<exists>x \<in> set xs. P x) \<Longrightarrow> p \<in> set xs"
  by (induction xs) (auto split: if_splits)

lemma filter_seen_keeps_first:
  "find (\<lambda>q. code q = k) ps = Some p \<Longrightarrow> k \<notin> seen \<Longrightarrow> p \<in> set (filter_seen seen ps)"
  by (induction ps arbitrary: seen) (auto split: if_splits)

lemma find_code: "find (\<lambda>q. code q = k) ps = Some p \<Longrightarrow> code p = k"
  by (induction ps) (auto split: if_splits)

text \<open>A key is emitted exactly when the first product that carries it has positive protein
  after rounding.\<close>

lemma mergeProducts_emitted_iff:
  "k \<in> set (map item_id (mergeProducts A B)) \<longleftrightarrow>
     (\<exists>p. find (\<lambda>q. code q = k) (A @ B) = Some p \<and> protein (transformProduct p) > 0)"
proof
  assume "k \<in> set (map item_id (mergeProducts A B))"
  then obtain p where p: "p \<in> set (filter_seen {} (A @ B))"
    and pos: "protein (transformProduct p) > 0" and k: "k = code p"
    by (auto simp: mergeProducts_eq item_id_transformProduct)
  from p have "find (\<lambda>q. code q = code p) (A @ B) = Some p"
    by (rule filter_seen_first)
  with pos k show "\<exists>p. find (\<lambda>q. code q = k) (A @ B) = Some p \<and> protein (transformProduct p) > 0"
    by blast
next
  assume "\<exists>p. find (\<lambda>q. code q = k) (A @ B) = Some p \<and> protein (transformProduct p) > 0"
  then obtain p where f: "find (\<lambda>q. code q = k) (A @ B) = Some p"
    and pos: "protein (transformProduct p) > 0"
    by blast
  from f have "p \<in> set (filter_seen {} (A @ B))"
    by (rule filter_seen_keeps_first) simp
  moreover from f have "code p = k"
    by (rule find_code)
  ultimately show "k \<in> set (map item_id (mergeProducts A B))"
    using pos by (force simp: mergeProducts_eq item_id_transformProduct)
qed

lemma sorted_wrt_shift:
  "sorted_wrt (\<lambda>a b. f a < (f b :: nat)) xs \<Longrightarrow> \<forall>x \<in> set xs. g x = Suc (f x) \<Longrightarrow>
   sorted_wrt (\<lambda>a b. g a < g b) xs"
  by (induction xs) auto

text \<open>The position of the first product with key \<open>k\<close> in \<open>ps\<close> is the length of the
  prefix of \<open>ps\<close> without that key. The filter emits keys in strictly increasing order of
  that position.\<close>

lemma filter_seen_first_seen_order:
  "sorted_wrt (\<lambda>k k'. length (takeWhile (\<lambda>q. code q \<noteq> k) ps) <
                       length (takeWhile (\<lambda>q. code q \<noteq> k') ps))
     (map code (filter_seen seen ps))"
proof (induction ps arbitrary: seen)
  case Nil
  show ?case by simp
next
  case (Cons q rest)
  let ?pos = "\<lambda>k. length (takeWhile (\<lambda>q. code q \<noteq> k) rest)"
  let ?pos' = "\<lambda>k. length (takeWhile (\<lambda>x. code x \<noteq> k) (q # rest))"
  show ?case
  proof (cases "code q \<in> seen")
    case True
    have "\<forall>k \<in> set (map code (filter_seen seen rest)). ?pos' k = Suc (?pos k)"
      using True by (auto dest: filter_seen_fresh)
    with Cons.IH [of seen] have "sorted_wrt (\<lambda>a b. ?pos' a < ?pos' b) (map code (filter_seen seen rest))"
      by (rule sorted_wrt_shift)
    with True show ?thesis by simp
  next
    case False
    let ?seen = "insert (code q) seen"
    have shift: "\<forall>k \<in> set (map code (filter_seen ?seen rest)). ?pos' k = Suc (?pos k)"
      by (auto dest: filter_seen_fresh)
    with Cons.IH [of ?seen]
    have "sorted_wrt (\<lambda>a b. ?pos' a < ?pos' b) (map code (filter_seen ?seen rest))"
      by (rule sorted_wrt_shift)
    moreover have "\<forall>k \<in> set (map code (filter_seen ?seen rest)). ?pos' (code q) < ?pos' k"
      by (auto dest: filter_seen_fresh)
    ultimately show ?thesis
      using False by (simp del: takeWhile.simps)
  qed
qed

lemma mergeProducts_first_seen_order:
  "sorted_wrt (\<lambda>k k'. length (takeWhile (\<lambda>q. code q \<noteq> k) (A @ B)) <
                       length (takeWhile (\<lambda>q. code q \<noteq> k') (A @ B)))
     (map item_id (mergeProducts A B))"
proof -
  let ?U = "filter_seen {} (A @ B)"
  let ?P = "\<lambda>p. protein (transformProduct p) > 0"
  let ?R = "\<lambda>k k'. length (takeWhile (\<lambda>q. code q \<noteq> k) (A @ B)) <
                       length (takeWhile (\<lambda>q. code q \<noteq> k') (A @ B))"
  have ids: "map item_id (mergeProducts A B) = map code (filter ?P ?U)"
    by (simp add: mergeProducts_eq item_id_transformProduct comp_def)
  have "sorted_wrt (\<lambda>p p'. ?R (code p) (code p')) ?U"
    using filter_seen_first_seen_order [of "A @ B" "{}"] by (simp add: sorted_wrt_map)
  then have "sorted_wrt (\<lambda>p p'. ?R (code p) (code p')) (filter ?P ?U)"
    by (rule sorted_wrt_filter)
  then show ?thesis
    unfolding ids by (simp add: sorted_wrt_map)
qed

text \<open>
  Claim C1. For all raw result arrays \<open>A\<close> and \<open>B\<close>, the merged output of \<open>searchFoods\<close>
  has no two records with the same identity key; every emitted key is the code of a
  product of \<open>A\<close> or \<open>B\<close>; every emitted record is the transformation of the first product
  of \<open>A @ B\<close> that carries its key, so a key present in \<open>A\<close> is emitted with the fields of
  a product of \<open>A\<close>; a key is emitted exactly when that first product has positive protein;
  the output is the transformation of a subsequence of \<open>A @ B\<close>; and the emitted keys stand
  in strictly increasing order of the position of their first occurrence in \<open>A @ B\<close>, so
  survivors keep their first-seen relative order.
\<close>

theorem mergeProducts_dedup_first:
  "distinct (map item_id (mergeProducts A B)) \<and>
   set (map item_id (mergeProducts A B)) \<subseteq> code ` (set A \<union> set B) \<and>
   (\<forall>item \<in> set (mergeProducts A B).
      \<exists>p. find (\<lambda>q. code q = item_id item) (A @ B) = Some p \<and> item = transformProduct p) \<and>
   (\<forall>item \<in> set (mergeProducts A B).
      item_id item \<in> code ` set A \<longrightarrow> item \<in> transformProduct ` set A) \<and>
   (k \<in> set (map item_id (mergeProducts A B)) \<longleftrightarrow>
      (\<exists>p. find (\<lambda>q. code q = k) (A @ B) = Some p \<and> protein (transformProduct p) > 0)) \<and>
   (\<exists>ps. subseq ps (A @ B) \<and> mergeProducts A B = map transformProduct ps) \<and>
   sorted_wrt (\<lambda>k k'. length (takeWhile (\<lambda>q. code q \<noteq> k) (A @ B)) <
                         length (takeWhile (\<lambda>q. code q \<noteq> k') (A @ B)))
     (map item_id (mergeProducts A B))"
proof (intro conjI)
  show "sorted_wrt (\<lambda>k k'. length (takeWhile (\<lambda>q. code q \<noteq> k) (A @ B)) <
                         length (takeWhile (\<lambda>q. code q \<noteq> k') (A @ B)))
     (map item_id (mergeProducts A B))"
    by (rule mergeProducts_first_seen_order)
  show "k \<in> set (map item_id (mergeProducts A B)) \<longleftrightarrow>
      (\<exists>p. find (\<lambda>q. code q = k) (A @ B) = Some p \<and> protein (transformProduct p) > 0)"
    by (rule mergeProducts_emitted_iff)
  let ?U = "filter_seen {} (A @ B)"
  let ?K = "filter (\<lambda>p. protein (transformProduct p) > 0) ?U"
  have ids: "map item_id (mergeProducts A B) = map code ?K"
    by (simp add: mergeProducts_eq item_id_transformProduct comp_def)
  show "distinct (map item_id (mergeProducts A B))"
    unfolding ids using filter_seen_distinct [of "{}" "A @ B"]
    by (simp add: distinct_map_filter)
  show "set (map item_id (mergeProducts A B)) \<subseteq> code ` (set A \<union> set B)"
    unfolding ids using filter_seen_subset [of "{}" "A @ B"] by auto
  have first: "\<exists>p. find (\<lambda>q. code q = item_id item) (A @ B) = Some p \<and> item = transformProduct p"
    if "item \<in> set (mergeProducts A B)" for item
  proof -
    from that obtain p where p: "p \<in> set ?U" and item: "item = transformProduct p"
      by (auto simp: mergeProducts_eq)
    from p have "find (\<lambda>q. code q = code p) (A @ B) = Some p"
      by (rule filter_seen_first)
    with item show ?thesis
      by (auto simp: item_id_transformProduct)
  qed
  then show "\<forall>item \<in> set (mergeProducts A B).
      \<exists>p. find (\<lambda>q. code q = item_id item) (A @ B) = Some p \<and> item = transformProduct p"
    by blast
  show "\<forall>item \<in> set (mergeProducts A B).
      item_id item \<in> code ` set A \<longrightarrow> item \<in> transformProduct ` set A"
  proof (intro ballI impI)
    fix item
    assume m: "item \<in> set (mergeProducts A B)" and a: "item_id item \<in> code ` set A"
    from first [OF m] obtain p
      where f: "find (\<lambda>q. code q = item_id item) (A @ B) = Some p"
        and item: "item = transformProduct p"
      by blast
    from a have "\<exists>x \<in> set A. code x = item_id item" by auto
    with f have "p \<in> set A" by (rule find_append_left)
    with item show "item \<in> transformProduct ` set A" by blast
  qed
  have "subseq ?K (A @ B)"
    by (rule subseq_order.trans [OF subseq_filter_left filter_seen_subseq])
  then show "\<exists>ps. subseq ps (A @ B) \<and> mergeProducts A B = map transformProduct ps"
    using mergeProducts_eq by blast
qed

text \<open>The second scenario of the specification: two queries return a record with key
  \<open>X123\<close> under different names, and the name of the first array is emitted.\<close>

lemma mergeProducts_X123:
  "mergeProducts [product_with ''X123'' ''First'' 10] [product_with ''X123'' ''Second'' 12] =
     [transformProduct (product_with ''X123'' ''First'' 10)]"
  by code_simp

lemma name_first_X123: "name (transformProduct (product_with ''X123'' ''First'' 10)) = ''First''"
  by code_simp

lemma mergeProducts_X123_then_Y1:
  "map name
     (mergeProducts [product_with ''X123'' ''First'' 10, product_with ''Y1'' ''Other'' 7]
        [product_with ''X123'' ''Second'' 12]) = [''First'', ''Other'']"
  by code_simp

theorem mergeProducts_dedup_first_witness:
  "map name
     (mergeProducts [product_with ''X123'' ''First'' 10] [product_with ''X123'' ''Second'' 12]) =
     [''First''] \<and>
   distinct (map item_id
     (mergeProducts [product_with ''X123'' ''First'' 10] [product_with ''X123'' ''Second'' 12])) \<and>
   set (mergeProducts [product_with ''X123'' ''First'' 10] [product_with ''X123'' ''Second'' 12])
     \<subseteq> transformProduct ` set [product_with ''X123'' ''First'' 10] \<and>
   map name
     (mergeProducts [product_with ''X123'' ''First'' 10, product_with ''Y1'' ''Other'' 7]
        [product_with ''X123'' ''Second'' 12]) = [''First'', ''Other'']"
  using mergeProducts_dedup_first
    [of "[product_with ''X123'' ''First'' 10]" "[product_with ''X123'' ''Second'' 12]"]
  by (simp add: mergeProducts_X123 name_first_X123 mergeProducts_X123_then_Y1)

section \<open>The combined search\<close>

lemma fold_push_unless_duplicate:
  "fold (push_unless_duplicate cr) api acc =
     acc @ filter (\<lambda>a. \<forall>c \<in> set cr. toLowerCase (name c) \<noteq> toLowerCase (name a)) api"
  by (induction api arbitrary: acc) (auto simp: push_unless_duplicate_def list_ex_iff)

lemma searchFoods_fulfils:
  "searchFoods fetch q pg sz =
     Inr (case searchFoods_try fetch q pg sz of Inl e \<Rightarrow> [] | Inr items \<Rightarrow> items)"
  by (simp add: searchFoods_def split: sum.splits)

lemma searchAllFoods_eq:
  "searchAllFoods fetch q =
     Inr (searchCommonFoods q @
          filter (\<lambda>a. \<forall>c \<in> set (searchCommonFoods q). toLowerCase (name c) \<noteq> toLowerCase (name a))
            (case searchFoods_try fetch q 1 20 of Inl e \<Rightarrow> [] | Inr items \<Rightarrow> items))"
  by (simp add: searchAllFoods_def Let_def searchFoods_fulfils fold_push_unless_duplicate)

lemma searchFoods_try_primary_rejects:
  "fetch (StructuredSearch q pg sz) = Inl e \<Longrightarrow> searchFoods_try fetch q pg sz = Inl e"
  by (simp add: searchFoods_try_def)

lemma searchFoods_try_primary_not_ok:
  "fetch (StructuredSearch q pg sz) = Inr r \<Longrightarrow> \<not> ok r \<Longrightarrow>
   searchFoods_try fetch q pg sz = Inl (ApiError (status r))"
  by (simp add: searchFoods_try_def)

lemma searchCommonFoods_chicken: "searchCommonFoods ''chicken'' = [curated_chicken]"
  by code_simp





lemma COMMON_FOODS_no_id: "f \<in> set COMMON_FOODS \<Longrightarrow> item_id f = None"
  by (auto simp: COMMON_FOODS_def common_def)

lemma with_common_id_erase:
  "\<forall>f \<in> set xs. item_id f = None \<Longrightarrow>
   map (\<lambda>f. f\<lparr>item_id := None\<rparr>) (map with_common_id (enumerate n xs)) = xs"
  by (induction xs arbitrary: n) (auto simp: with_common_id_def)

text \<open>Up to the identifiers it assigns, \<open>searchCommonFoods\<close> is the filtered table, in table order.\<close>

lemma searchCommonFoods_order:
  "map (\<lambda>f. f\<lparr>item_id := None\<rparr>) (searchCommonFoods q) =
     filter (\<lambda>food. includes_str (toLowerCase (name food)) (toLowerCase q)) COMMON_FOODS"
  unfolding searchCommonFoods_def Let_def
  by (rule with_common_id_erase) (auto dest: COMMON_FOODS_no_id)

lemma lower_curated_chicken: "toLowerCase (name curated_chicken) = ''chicken breast (cooked)''"
  by code_simp

lemma filter_excluded_name:
  "filter (\<lambda>f. toLowerCase (name f) = n) (filter (\<lambda>a. n \<noteq> toLowerCase (name a)) api) = []"
  by (induction api) auto

text \<open>
  Claim C3. For every query and every remote result list, the combined search returns the
  common-food matches of the query, which are the matching rows of \<open>COMMON_FOODS\<close> in table
  order, followed by exactly those remote records whose lower-cased name differs from the
  lower-cased name of every common match. In particular, whatever the remote source
  returns for the query \<open>chicken\<close>, the only entry of the result whose name is, up to case,
  \<open>Chicken Breast (cooked)\<close> is the curated one.
\<close>

theorem searchAllFoods_common_first:
  "(searchFoods fetch q 1 20 = Inr apiResults \<longrightarrow>
      searchAllFoods fetch q =
        Inr (searchCommonFoods q @
             filter (\<lambda>apiFood. \<forall>c \<in> set (searchCommonFoods q).
                       toLowerCase (name c) \<noteq> toLowerCase (name apiFood))
               apiResults)) \<and>
   map (\<lambda>f. f\<lparr>item_id := None\<rparr>) (searchCommonFoods q) =
     filter (\<lambda>food. includes_str (toLowerCase (name food)) (toLowerCase q)) COMMON_FOODS \<and>
   (searchAllFoods fetch ''chicken'' = Inr combined \<longrightarrow>
      filter (\<lambda>f. toLowerCase (name f) = ''chicken breast (cooked)'') combined =
        [curated_chicken])"
proof (intro conjI impI)
  show "searchAllFoods fetch q =
        Inr (searchCommonFoods q @
             filter (\<lambda>apiFood. \<forall>c \<in> set (searchCommonFoods q).
                       toLowerCase (name c) \<noteq> toLowerCase (name apiFood))
               apiResults)"
    if "searchFoods fetch q 1 20 = Inr apiResults"
    using that by (simp add: searchAllFoods_eq searchFoods_fulfils)
  show "map (\<lambda>f. f\<lparr>item_id := None\<rparr>) (searchCommonFoods q) =
     filter (\<lambda>food. includes_str (toLowerCase (name food)) (toLowerCase q)) COMMON_FOODS"
    by (rule searchCommonFoods_order)
  show "filter (\<lambda>f. toLowerCase (name f) = ''chicken breast (cooked)'') combined =
          [curated_chicken]"
    if "searchAllFoods fetch ''chicken'' = Inr combined"
  proof -
    define api where
      "api = (case searchFoods_try fetch ''chicken'' 1 20 of Inl e \<Rightarrow> [] | Inr items \<Rightarrow> items)"
    from that have c: "combined =
        [curated_chicken] @
        filter (\<lambda>a. ''chicken breast (cooked)'' \<noteq> toLowerCase (name a)) api"
      by (simp add: searchAllFoods_eq searchCommonFoods_chicken lower_curated_chicken api_def)
    show ?thesis
      unfolding c filter_append filter_excluded_name
      by (simp add: lower_curated_chicken)
  qed
qed

text \<open>The first scenario of the specification: the remote source returns a record named
  \<open>chicken breast (cooked)\<close> with 31.2 g of protein, next to two other products.\<close>

lemma searchFoods_fetch_chicken:
  "searchFoods fetch_chicken ''chicken'' 1 20 =
     Inr [transformProduct (product_with ''X100'' ''chicken breast (cooked)'' (312 / 10)),
          transformProduct (product_with ''X123'' ''Chicken Soup'' 4),
          transformProduct (product_with ''X200'' ''Chicken Nuggets'' 15)]"
  by code_simp

lemma searchAllFoods_fetch_chicken:
  "searchAllFoods fetch_chicken ''chicken'' =
     Inr [curated_chicken,
          transformProduct (product_with ''X123'' ''Chicken Soup'' 4),
          transformProduct (product_with ''X200'' ''Chicken Nuggets'' 15)]"
  by code_simp

theorem searchAllFoods_common_first_witness:
  "searchFoods fetch_chicken ''chicken'' 1 20 =
     Inr [transformProduct (product_with ''X100'' ''chicken breast (cooked)'' (312 / 10)),
          transformProduct (product_with ''X123'' ''Chicken Soup'' 4),
          transformProduct (product_with ''X200'' ''Chicken Nuggets'' 15)] \<and>
   searchAllFoods fetch_chicken ''chicken'' =
     Inr [curated_chicken,
          transformProduct (product_with ''X123'' ''Chicken Soup'' 4),
          transformProduct (product_with ''X200'' ''Chicken Nuggets'' 15)] \<and>
   filter (\<lambda>f. toLowerCase (name f) = ''chicken breast (cooked)'')
     [curated_chicken,
      transformProduct (product_with ''X123'' ''Chicken Soup'' 4),
      transformProduct (product_with ''X200'' ''Chicken Nuggets'' 15)] =
     [curated_chicken]"
  using searchAllFoods_common_first
    [of fetch_chicken "''chicken''"
        "[transformProduct (product_with ''X100'' ''chicken breast (cooked)'' (312 / 10)),
          transformProduct (product_with ''X123'' ''Chicken Soup'' 4),
          transformProduct (product_with ''X200'' ''Chicken Nuggets'' 15)]"
        "[curated_chicken,
          transformProduct (product_with ''X123'' ''Chicken Soup'' 4),
          transformProduct (product_with ''X200'' ''Chicken Nuggets'' 15)]"]
    searchFoods_fetch_chicken searchAllFoods_fetch_chicken
  by blast

section \<open>Failure of the two remote queries\<close>

lemma searchFoods_try_secondary_not_ok:
  "fetch (StructuredSearch q pg sz) = Inr r \<Longrightarrow> ok r \<Longrightarrow> json r = Inr (JsonObject dp) \<Longrightarrow>
   fetch (TextSearch q pg sz) = Inr tr \<Longrightarrow> \<not> ok tr \<Longrightarrow>
   searchFoods_try fetch q pg sz =
     Inr (mergeProducts (case dp of None \<Rightarrow> [] | Some ps \<Rightarrow> ps) [])"
  by (cases dp) (simp_all add: searchFoods_try_def)

text \<open>
  Claim C10. The two queries of \<open>searchFoods\<close> fail asymmetrically. When the structured
  request rejects, or answers with a non-success status, \<open>searchFoods\<close> returns the empty
  list whatever the text query would have answered. When the structured request succeeds
  and the text request answers with a non-success status, \<open>searchFoods\<close> returns the merge
  of the structured query's products with no others.
\<close>

theorem searchFoods_asymmetric_failure:
  "(isl (fetch (StructuredSearch q pg sz)) \<longrightarrow> searchFoods fetch q pg sz = Inr []) \<and>
   ((\<exists>r. fetch (StructuredSearch q pg sz) = Inr r \<and> \<not> ok r) \<longrightarrow>
      searchFoods fetch q pg sz = Inr []) \<and>
   ((\<exists>r tr. fetch (StructuredSearch q pg sz) = Inr r \<and> ok r \<and> json r = Inr (JsonObject dp) \<and>
            fetch (TextSearch q pg sz) = Inr tr \<and> \<not> ok tr) \<longrightarrow>
      searchFoods fetch q pg sz =
        Inr (mergeProducts (case dp of None \<Rightarrow> [] | Some ps \<Rightarrow> ps) []))"
proof (intro conjI impI)
  show "searchFoods fetch q pg sz = Inr []" if "isl (fetch (StructuredSearch q pg sz))"
  proof -
    from that obtain e where "fetch (StructuredSearch q pg sz) = Inl e"
      by (auto simp: isl_def)
    then have "searchFoods_try fetch q pg sz = Inl e"
      by (rule searchFoods_try_primary_rejects)
    then show ?thesis
      by (simp add: searchFoods_def)
  qed
  show "searchFoods fetch q pg sz = Inr []"
    if "\<exists>r. fetch (StructuredSearch q pg sz) = Inr r \<and> \<not> ok r"
  proof -
    from that obtain r where "fetch (StructuredSearch q pg sz) = Inr r" "\<not> ok r"
      by blast
    then have "searchFoods_try fetch q pg sz = Inl (ApiError (status r))"
      by (rule searchFoods_try_primary_not_ok)
    then show ?thesis
      by (simp add: searchFoods_def)
  qed
  show "searchFoods fetch q pg sz =
        Inr (mergeProducts (case dp of None \<Rightarrow> [] | Some ps \<Rightarrow> ps) [])"
    if "\<exists>r tr. fetch (StructuredSearch q pg sz) = Inr r \<and> ok r \<and> json r = Inr (JsonObject dp) \<and>
            fetch (TextSearch q pg sz) = Inr tr \<and> \<not> ok tr"
  proof -
    from that obtain r tr where "fetch (StructuredSearch q pg sz) = Inr r" "ok r"
      "json r = Inr (JsonObject dp)" "fetch (TextSearch q pg sz) = Inr tr" "\<not> ok tr"
      by blast
    then have "searchFoods_try fetch q pg sz =
        Inr (mergeProducts (case dp of None \<Rightarrow> [] | Some ps \<Rightarrow> ps) [])"
      by (rule searchFoods_try_secondary_not_ok)
    then show ?thesis
      by (simp add: searchFoods_def)
  qed
qed

lemma fetch_primary_down_rejects:
  "isl (fetch_primary_down (StructuredSearch ''chicken'' 1 20))"
  by (simp add: fetch_primary_down_def)

lemma fetch_primary_rejected_not_ok:
  "\<exists>r. fetch_primary_rejected (StructuredSearch ''chicken'' 1 20) = Inr r \<and> \<not> ok r"
  by (simp add: fetch_primary_rejected_def error_response_def)

lemma fetch_secondary_rejected_shape:
  "\<exists>r tr. fetch_secondary_rejected (StructuredSearch ''chicken'' 1 20) = Inr r \<and> ok r \<and>
      json r = Inr (JsonObject (Some [product_with ''X123'' ''Chicken Soup'' 4])) \<and>
      fetch_secondary_rejected (TextSearch ''chicken'' 1 20) = Inr tr \<and> \<not> ok tr"
  by (simp add: fetch_secondary_rejected_def error_response_def ok_response_def)

lemma mergeProducts_soup:
  "mergeProducts [product_with ''X123'' ''Chicken Soup'' 4] [] =
     [transformProduct (product_with ''X123'' ''Chicken Soup'' 4)]"
  by code_simp

theorem searchFoods_asymmetric_failure_witness:
  "isl (fetch_primary_down (StructuredSearch ''chicken'' 1 20)) \<and>
   fetch_primary_down (TextSearch ''chicken'' 1 20) =
     Inr (ok_response [product_with ''X200'' ''Chicken Nuggets'' 15]) \<and>
   searchFoods fetch_primary_down ''chicken'' 1 20 = Inr [] \<and>
   (\<exists>r. fetch_primary_rejected (StructuredSearch ''chicken'' 1 20) = Inr r \<and> \<not> ok r) \<and>
   searchFoods fetch_primary_rejected ''chicken'' 1 20 = Inr [] \<and>
   (\<exists>r tr. fetch_secondary_rejected (StructuredSearch ''chicken'' 1 20) = Inr r \<and> ok r \<and>
      json r = Inr (JsonObject (Some [product_with ''X123'' ''Chicken Soup'' 4])) \<and>
      fetch_secondary_rejected (TextSearch ''chicken'' 1 20) = Inr tr \<and> \<not> ok tr) \<and>
   searchFoods fetch_secondary_rejected ''chicken'' 1 20 =
     Inr [transformProduct (product_with ''X123'' ''Chicken Soup'' 4)]"
proof -
  have nuggets: "fetch_primary_down (TextSearch ''chicken'' 1 20) =
     Inr (ok_response [product_with ''X200'' ''Chicken Nuggets'' 15])"
    by (simp add: fetch_primary_down_def)
  note down = searchFoods_asymmetric_failure [of fetch_primary_down "''chicken''" 1 20]
  note rejected = searchFoods_asymmetric_failure [of fetch_primary_rejected "''chicken''" 1 20]
  note secondary = searchFoods_asymmetric_failure
    [of fetch_secondary_rejected "''chicken''" 1 20 "Some [product_with ''X123'' ''Chicken Soup'' 4]"]
  from secondary fetch_secondary_rejected_shape
  have "searchFoods fetch_secondary_rejected ''chicken'' 1 20 =
     Inr [transformProduct (product_with ''X123'' ''Chicken Soup'' 4)]"
    unfolding option.case mergeProducts_soup by blast
  with down rejected nuggets fetch_primary_down_rejects fetch_primary_rejected_not_ok
    fetch_secondary_rejected_shape
  show ?thesis by blast
qed

section \<open>The record normalizer\<close>

lemma Math_round_bounds: "x - 1 / 2 < of_int (Math_round x) \<and> of_int (Math_round x) \<le> x + 1 / 2"
  unfolding Math_round_def by linarith

lemma Math_round_of_int: "Math_round (of_int k) = k"
  unfolding Math_round_def by linarith

lemma round1_close: "x - 1 / 20 < round1 x \<and> round1 x \<le> x + 1 / 20"
  using Math_round_bounds [of "x * 10"] unfolding round1_def by (simp add: field_simps)

lemma round1_abs: "\<bar>round1 x - x\<bar> \<le> 1 / 20"
  using round1_close [of x] by linarith

lemma round1_tenths: "\<exists>k::int. round1 x = of_int k / 10"
  unfolding round1_def by blast

lemma round1_nonneg: "0 \<le> x \<Longrightarrow> 0 \<le> round1 x"
proof -
  assume "0 \<le> x"
  then have "0 \<le> Math_round (x * 10)"
    unfolding Math_round_def by simp
  then show ?thesis
    unfolding round1_def by simp
qed

lemma round1_0: "round1 0 = 0"
  unfolding round1_def using Math_round_of_int [of 0] by simp

lemma or_num_nonneg:
  "(\<And>v. x = Some v \<Longrightarrow> 0 \<le> v) \<Longrightarrow> 0 \<le> d \<Longrightarrow> 0 \<le> or_num x d"
  by (auto simp: or_num_def split: option.splits)

lemma or_str_nonempty: "d \<noteq> [] \<Longrightarrow> or_str x d \<noteq> []"
  by (auto simp: or_str_def split: option.splits)

lemma or_num_nonzero: "d \<noteq> 0 \<Longrightarrow> or_num x d \<noteq> 0"
  by (auto simp: or_num_def split: option.splits)

lemma protein_transformProduct:
  "protein (transformProduct p) =
     round1 (or_num (proteins_100g (case nutriments p of None \<Rightarrow> no_nutriments | Some m \<Rightarrow> m))
               (or_num (proteins (case nutriments p of None \<Rightarrow> no_nutriments | Some m \<Rightarrow> m)) 0))"
  by (simp add: transformProduct_def Let_def)

text \<open>
  Claim C4, as the code has it. For every raw product, \<open>transformProduct\<close> returns a food
  item (it has no failing branch) with missing fields defaulted: the name is never empty
  and is \<open>Unknown Product\<close> when absent, an absent brand is the empty string, the serving
  size is never zero and is 100 when absent. The protein per 100 g is non-negative whenever
  the protein figures of the nutrient map are non-negative or absent; a product without a
  nutrient map gets protein 0; and both protein figures are whole tenths, the protein per
  100 g within 0.05 of the source figure.
\<close>

theorem transformProduct_total:
  "((\<forall>n v. nutriments p = Some n \<and> (proteins_100g n = Some v \<or> proteins n = Some v) \<longrightarrow> 0 \<le> v)
      \<longrightarrow> 0 \<le> protein (transformProduct p)) \<and>
   (nutriments p = None \<longrightarrow>
      protein (transformProduct p) = 0 \<and> proteinPerServing (transformProduct p) = Some 0) \<and>
   (\<exists>k::int. protein (transformProduct p) = of_int k / 10) \<and>
   (\<exists>k::int. proteinPerServing (transformProduct p) = Some (of_int k / 10)) \<and>
   (nutriments p = Some n \<longrightarrow>
      \<bar>protein (transformProduct p) - or_num (proteins_100g n) (or_num (proteins n) 0)\<bar> \<le> 1 / 20) \<and>
   name (transformProduct p) \<noteq> [] \<and>
   (product_name p = None \<longrightarrow> name (transformProduct p) = ''Unknown Product'') \<and>
   (brands p = None \<longrightarrow> brand (transformProduct p) = Some '''') \<and>
   servingSize (transformProduct p) \<noteq> 0 \<and>
   ((\<forall>n. nutriments p = Some n \<longrightarrow> serving_size n = None) \<longrightarrow>
      servingSize (transformProduct p) = 100) \<and>
   item_id (transformProduct p) = code p"
proof (intro conjI impI)
  show "0 \<le> protein (transformProduct p)"
    if h: "\<forall>n v. nutriments p = Some n \<and> (proteins_100g n = Some v \<or> proteins n = Some v) \<longrightarrow> 0 \<le> v"
  proof (cases "nutriments p")
    case None
    then show ?thesis
      by (simp add: transformProduct_def no_nutriments_def or_num_def round1_0)
  next
    case (Some n)
    with h have "0 \<le> or_num (proteins_100g n) (or_num (proteins n) 0)"
      by (intro or_num_nonneg) auto
    with Some show ?thesis
      by (simp add: transformProduct_def Let_def round1_nonneg)
  qed
  show "protein (transformProduct p) = 0" if "nutriments p = None"
    using that by (simp add: transformProduct_def no_nutriments_def or_num_def round1_0)
  show "proteinPerServing (transformProduct p) = Some 0" if "nutriments p = None"
    using that by (simp add: transformProduct_def no_nutriments_def or_num_def round1_0)
  show "\<exists>k::int. protein (transformProduct p) = of_int k / 10"
    unfolding protein_transformProduct by (rule round1_tenths)
  show "\<exists>k::int. proteinPerServing (transformProduct p) = Some (of_int k / 10)"
  proof -
    obtain x where "proteinPerServing (transformProduct p) = Some (round1 x)"
      by (simp add: transformProduct_def Let_def)
    with round1_tenths [of x] show ?thesis
      by auto
  qed
  show "\<bar>protein (transformProduct p) - or_num (proteins_100g n) (or_num (proteins n) 0)\<bar> \<le> 1 / 20"
    if "nutriments p = Some n"
    using that round1_abs [of "or_num (proteins_100g n) (or_num (proteins n) 0)"]
    by (simp add: protein_transformProduct)
  show "name (transformProduct p) \<noteq> []"
    by (simp add: transformProduct_def Let_def or_str_nonempty)
  show "name (transformProduct p) = ''Unknown Product''" if "product_name p = None"
    using that by (simp add: transformProduct_def Let_def or_str_def)
  show "brand (transformProduct p) = Some ''''" if "brands p = None"
    using that by (simp add: transformProduct_def Let_def or_str_def)
  show "servingSize (transformProduct p) \<noteq> 0"
    by (simp add: transformProduct_def Let_def or_num_nonzero)
  show "servingSize (transformProduct p) = 100"
    if "\<forall>n. nutriments p = Some n \<longrightarrow> serving_size n = None"
    using that
    by (cases "nutriments p") (simp_all add: transformProduct_def Let_def or_num_def no_nutriments_def)
  show "item_id (transformProduct p) = code p"
    by (rule item_id_transformProduct)
qed

text \<open>A negative source figure passes through: the claim that the protein per 100 g is
  non-negative for every payload fails at this product.\<close>

theorem transformProduct_negative_counterexample:
  "\<not> 0 \<le> protein (transformProduct negative_protein_product)"
  by code_simp

lemma soup_figures_nonneg:
  "\<forall>n v. nutriments (product_with ''X123'' ''Chicken Soup'' 4) = Some n \<and>
       (proteins_100g n = Some v \<or> proteins n = Some v) \<longrightarrow> 0 \<le> v"
  by (auto simp: product_with_def)

lemma bare_product_fields:
  "nutriments bare_product = None \<and> product_name bare_product = None \<and>
   brands bare_product = None"
  by (simp add: bare_product_def)

theorem transformProduct_total_witness:
  "0 \<le> protein (transformProduct (product_with ''X123'' ''Chicken Soup'' 4)) \<and>
   nutriments bare_product = None \<and>
   protein (transformProduct bare_product) = 0 \<and>
   proteinPerServing (transformProduct bare_product) = Some 0 \<and>
   name (transformProduct bare_product) = ''Unknown Product'' \<and>
   brand (transformProduct bare_product) = Some [] \<and>
   servingSize (transformProduct bare_product) = 100"
  using transformProduct_total [of "product_with ''X123'' ''Chicken Soup'' 4"]
    transformProduct_total [of bare_product]
    soup_figures_nonneg bare_product_fields
  by simp

section \<open>The serving scaler\<close>

lemma calculateProtein_Some:
  "calculateProtein (Some r) s =
     round1 (protein r * (s / (if servingSize r = 0 then 100 else servingSize r)))"
  by (simp add: calculateProtein_def Let_def round1_def)

text \<open>
  Claim C5 at a product with 10 g of protein per 100 g and a declared serving of 30 g. The
  normalizer stores the per-100 figure 10 as \<open>protein\<close>, the serving size 30 and the
  per-serving figure 3. Scaled to 60 g the claim's formula gives 6, and
  \<open>calculateProtein\<close> returns 20: it multiplies the per-100 figure by the chosen size over
  the serving size. At the record's own serving size it returns 10, not the per-serving
  figure 3. Every value here is a small integer, so the doubles of the code compute the
  same numbers.
\<close>

theorem calculateProtein_serving_basis:
  "protein (transformProduct serving_30_product) = 10 \<and>
   servingSize (transformProduct serving_30_product) = 30 \<and>
   proteinPerServing (transformProduct serving_30_product) = Some 3 \<and>
   round1 (protein (transformProduct serving_30_product) * (60 / 100)) = 6 \<and>
   calculateProtein (Some (transformProduct serving_30_product)) 60 = 20 \<and>
   calculateProtein (Some (transformProduct serving_30_product))
     (servingSize (transformProduct serving_30_product)) = 10 \<and>
   \<not> \<bar>calculateProtein (Some (transformProduct serving_30_product))
        (servingSize (transformProduct serving_30_product)) -
      the (proteinPerServing (transformProduct serving_30_product))\<bar> \<le> 1 / 10"
  by code_simp

section \<open>The label resolver\<close>

lemma fuzzy_loop_acc: "fuzzy_loop ps acc = acc @ fuzzy_loop ps []"
proof (induction ps arbitrary: acc)
  case Nil
  show ?case by simp
next
  case (Cons p ps)
  show ?case
  proof (cases "first_keyword_match (map trim (split_sep (toLowerCase (className p))))")
    case None
    then show ?thesis
      using Cons.IH [of acc] by (simp add: Let_def)
  next
    case (Some b)
    then show ?thesis
      using Cons.IH [of "acc @ [b\<lparr>source := ''recognition'',
                confidence := Some (Math_round (probability p * 100)),
                originalClass := Some (className p)\<rparr>]"]
        Cons.IH [of "[b\<lparr>source := ''recognition'',
                confidence := Some (Math_round (probability p * 100)),
                originalClass := Some (className p)\<rparr>]"]
        Cons.IH [of acc]
      by (simp add: Let_def)
  qed
qed

lemma fuzzy_loop_below_threshold:
  "\<forall>p \<in> set ps. probability p < MIN_CONFIDENCE \<Longrightarrow> fuzzy_loop ps acc = acc"
  by (induction ps arbitrary: acc) auto

lemma foodResults_below_threshold:
  "\<forall>p \<in> set ps. probability p < MIN_CONFIDENCE \<Longrightarrow> foodResults ps = []"
proof -
  assume "\<forall>p \<in> set ps. probability p < MIN_CONFIDENCE"
  then have "filter (\<lambda>pred. probability pred \<ge> MIN_CONFIDENCE) ps = []"
    by (auto simp: filter_empty_conv)
  then show ?thesis
    by (simp add: foodResults_def)
qed

lemma length_fuzzyMatchFoods: "length (fuzzyMatchFoods ps) \<le> MAX_RESULTS"
  by (simp add: fuzzyMatchFoods_def)

lemma length_foodResults: "length (foodResults ps) \<le> length ps"
proof -
  let ?kept = "filter (\<lambda>pred. probability pred \<ge> MIN_CONFIDENCE) ps"
  have "length (foodResults ps) \<le> length (map mapToFoodItem ?kept)"
    unfolding foodResults_def length_map [of the] by (rule length_filter_le)
  also have "\<dots> \<le> length ps"
    by simp
  finally show ?thesis .
qed

lemma foodResults_direct:
  "item \<in> set (foodResults ps) \<Longrightarrow>
   \<exists>p \<in> set ps. MIN_CONFIDENCE \<le> probability p \<and> mapToFoodItem p = Some item"
  by (auto simp: foodResults_def)

lemma mapToFoodItem_id:
  "mapToFoodItem p = Some item \<Longrightarrow> \<exists>key. item_id item = Some (''recognized-'' @ key)"
  by (auto simp: mapToFoodItem_def Let_def split: option.splits prod.splits)

lemma show_nat_0: "show_nat 0 = ''0''"
  by (simp add: show_nat.simps)

lemma searchCommonFoods_first_id:
  "searchCommonFoods k = b # others \<Longrightarrow> item_id b = Some ''common-0''"
  by (cases "filter (\<lambda>food. includes_str (toLowerCase (name food)) (toLowerCase k)) COMMON_FOODS")
    (auto simp: searchCommonFoods_def Let_def with_common_id_def show_nat_0)

lemma first_keyword_match_id:
  "first_keyword_match ks = Some b \<Longrightarrow> item_id b = Some ''common-0''"
  by (induction ks) (auto split: list.splits dest: searchCommonFoods_first_id)

lemma fuzzy_loop_ids:
  "\<forall>item \<in> set acc. item_id item = Some ''common-0'' \<Longrightarrow>
   item \<in> set (fuzzy_loop ps acc) \<Longrightarrow> item_id item = Some ''common-0''"
proof (induction ps arbitrary: acc)
  case Nil
  then show ?case by simp
next
  case (Cons p ps)
  show ?case
  proof (cases "probability p < MIN_CONFIDENCE")
    case True
    with Cons show ?thesis by simp
  next
    case False
    show ?thesis
    proof (cases "first_keyword_match (map trim (split_sep (toLowerCase (className p))))")
      case None
      with False Cons show ?thesis
        by (simp add: Let_def)
    next
      case (Some b)
      let ?r = "b\<lparr>source := ''recognition'',
                confidence := Some (Math_round (probability p * 100)),
                originalClass := Some (className p)\<rparr>"
      from Some have "item_id ?r = Some ''common-0''"
        by (simp add: first_keyword_match_id)
      with Cons.prems(1) have "\<forall>item \<in> set (acc @ [?r]). item_id item = Some ''common-0''"
        by auto
      moreover from Cons.prems(2) False Some have "item \<in> set (fuzzy_loop ps (acc @ [?r]))"
        by (simp add: Let_def)
      ultimately show ?thesis
        by (rule Cons.IH)
    qed
  qed
qed

lemma fuzzyMatchFoods_ids:
  "item \<in> set (fuzzyMatchFoods ps) \<Longrightarrow> item_id item = Some ''common-0''"
proof -
  assume "item \<in> set (fuzzyMatchFoods ps)"
  then have "item \<in> set (fuzzy_loop ps [])"
    unfolding fuzzyMatchFoods_def by (rule in_set_takeD)
  then show ?thesis
    by (intro fuzzy_loop_ids [of "[]" _ ps]) auto
qed

text \<open>
  Claim C6. For every classifier output sequence, fuzzy matching contributes only when the
  direct mapping emitted nothing for all predictions at or above the threshold: when some
  direct mapping exists, the result is exactly the list of direct mappings, each the
  \<open>mapToFoodItem\<close> image of a prediction at or above the threshold with an identifier of
  the form \<open>recognized-key\<close>, and it contains no fuzzy record (those carry the identifier
  \<open>common-0\<close>); when no direct mapping exists, the result is the fuzzy result.
\<close>

theorem recognize_fuzzy_only_without_direct:
  "(foodResults ps \<noteq> [] \<longrightarrow> recognize_predictions ps = foodResults ps) \<and>
   (foodResults ps = [] \<longrightarrow> recognize_predictions ps = fuzzyMatchFoods ps) \<and>
   (\<forall>item \<in> set (foodResults ps).
      (\<exists>p \<in> set ps. MIN_CONFIDENCE \<le> probability p \<and> mapToFoodItem p = Some item) \<and>
      (\<exists>key. item_id item = Some (''recognized-'' @ key))) \<and>
   (\<forall>item \<in> set (fuzzyMatchFoods ps). item_id item = Some ''common-0'')"
proof (intro conjI impI ballI)
  show "recognize_predictions ps = foodResults ps" if "foodResults ps \<noteq> []"
    using that by (simp add: recognize_predictions_def)
  show "recognize_predictions ps = fuzzyMatchFoods ps" if "foodResults ps = []"
    using that by (cases ps) (simp_all add: recognize_predictions_def fuzzyMatchFoods_def)
  show "\<exists>p \<in> set ps. MIN_CONFIDENCE \<le> probability p \<and> mapToFoodItem p = Some item"
    if "item \<in> set (foodResults ps)" for item
    using that by (rule foodResults_direct)
  show "\<exists>key. item_id item = Some (''recognized-'' @ key)"
    if "item \<in> set (foodResults ps)" for item
    using foodResults_direct [OF that] mapToFoodItem_id by blast
  show "item_id item = Some ''common-0''" if "item \<in> set (fuzzyMatchFoods ps)" for item
    using that by (rule fuzzyMatchFoods_ids)
qed

lemma foodResults_pizza_and_tilapia: "map name (foodResults pizza_and_tilapia) = [''Pizza'']"
  by code_simp

lemma fuzzy_pizza_and_tilapia:
  "map name (fuzzyMatchFoods pizza_and_tilapia) = [''Tilapia (cooked)'']"
  by code_simp

lemma foodResults_tilapia_and_edamame: "foodResults tilapia_and_edamame = []"
  by code_simp

lemma fuzzy_tilapia_and_edamame:
  "map name (fuzzyMatchFoods tilapia_and_edamame) = [''Tilapia (cooked)'', ''Edamame (cooked)'']"
  by code_simp

theorem recognize_fuzzy_only_without_direct_witness:
  "foodResults pizza_and_tilapia \<noteq> [] \<and>
   map name (recognize_predictions pizza_and_tilapia) = [''Pizza''] \<and>
   map name (fuzzyMatchFoods pizza_and_tilapia) = [''Tilapia (cooked)''] \<and>
   foodResults tilapia_and_edamame = [] \<and>
   map name (recognize_predictions tilapia_and_edamame) =
     [''Tilapia (cooked)'', ''Edamame (cooked)'']"
proof -
  from foodResults_pizza_and_tilapia have d: "foodResults pizza_and_tilapia \<noteq> []"
    by auto
  with recognize_fuzzy_only_without_direct [of pizza_and_tilapia]
  have "recognize_predictions pizza_and_tilapia = foodResults pizza_and_tilapia"
    by blast
  moreover from recognize_fuzzy_only_without_direct [of tilapia_and_edamame]
    foodResults_tilapia_and_edamame
  have "recognize_predictions tilapia_and_edamame = fuzzyMatchFoods tilapia_and_edamame"
    by blast
  ultimately show ?thesis
    using d foodResults_pizza_and_tilapia fuzzy_pizza_and_tilapia
      foodResults_tilapia_and_edamame fuzzy_tilapia_and_edamame
    by simp
qed

lemma recognize_predictions_cases:
  "recognize_predictions ps = (if foodResults ps = [] then fuzzyMatchFoods ps else foodResults ps)"
proof (cases ps)
  case Nil
  then show ?thesis
    by (simp add: recognize_predictions_def fuzzyMatchFoods_def foodResults_def)
next
  case (Cons p rest)
  then show ?thesis
    by (simp add: recognize_predictions_def)
qed

lemma mapToFoodItem_origin:
  "mapToFoodItem p = Some item \<Longrightarrow>
   originalClass item = Some (className p) \<and>
   confidence item = Some (Math_round (probability p * 100))"
  by (auto simp: mapToFoodItem_def Let_def split: option.splits prod.splits)

lemma fuzzy_loop_origin:
  "item \<in> set (fuzzy_loop ps acc) \<Longrightarrow>
   item \<in> set acc \<or>
   (\<exists>p \<in> set ps. MIN_CONFIDENCE \<le> probability p \<and>
      originalClass item = Some (className p) \<and>
      confidence item = Some (Math_round (probability p * 100)))"
proof (induction ps arbitrary: acc)
  case Nil
  then show ?case by simp
next
  case (Cons p ps)
  show ?case
  proof (cases "probability p < MIN_CONFIDENCE")
    case True
    with Cons.prems have "item \<in> set (fuzzy_loop ps acc)"
      by simp
    from Cons.IH [OF this] show ?thesis
      by auto
  next
    case False
    show ?thesis
    proof (cases "first_keyword_match (map trim (split_sep (toLowerCase (className p))))")
      case None
      with False Cons.prems have "item \<in> set (fuzzy_loop ps acc)"
        by (simp add: Let_def)
      from Cons.IH [OF this] show ?thesis
        by auto
    next
      case (Some b)
      let ?r = "b\<lparr>source := ''recognition'',
                confidence := Some (Math_round (probability p * 100)),
                originalClass := Some (className p)\<rparr>"
      from False Some Cons.prems have "item \<in> set (fuzzy_loop ps (acc @ [?r]))"
        by (simp add: Let_def)
      from Cons.IH [OF this] False show ?thesis
        by auto
    qed
  qed
qed

lemma recognize_predictions_origin:
  "item \<in> set (recognize_predictions ps) \<Longrightarrow>
   \<exists>p \<in> set ps. MIN_CONFIDENCE \<le> probability p \<and>
      originalClass item = Some (className p) \<and>
      confidence item = Some (Math_round (probability p * 100))"
proof (cases "foodResults ps = []")
  case True
  assume "item \<in> set (recognize_predictions ps)"
  with True have "item \<in> set (fuzzy_loop ps [])"
    by (auto simp: recognize_predictions_cases fuzzyMatchFoods_def dest: in_set_takeD)
  from fuzzy_loop_origin [OF this] show ?thesis
    by simp
next
  case False
  assume "item \<in> set (recognize_predictions ps)"
  with False have "item \<in> set (foodResults ps)"
    by (simp add: recognize_predictions_cases)
  from foodResults_direct [OF this] mapToFoodItem_origin show ?thesis
    by blast
qed

text \<open>
  Claim C7. For every classifier output sequence whose probabilities are all strictly
  below \<open>MIN_CONFIDENCE\<close>, the result is empty: the direct mapping keeps no prediction and
  the fuzzy loop skips every prediction. More generally, in every classifier output each
  returned record stems from a prediction at or above \<open>MIN_CONFIDENCE\<close>, whose class name
  and rounded probability it carries, so a discarded pair contributes no record on either
  path.
\<close>

theorem recognize_below_threshold_empty:
  "((\<forall>p \<in> set ps. probability p < MIN_CONFIDENCE) \<longrightarrow>
      recognize_predictions ps = [] \<and> foodResults ps = [] \<and> fuzzy_loop ps [] = [] \<and>
      recognizeFood (Inr (\<lambda>img k. Inr ps)) imageElement = Inr []) \<and>
   (\<forall>item \<in> set (recognize_predictions qs).
      \<exists>p \<in> set qs. MIN_CONFIDENCE \<le> probability p \<and>
        originalClass item = Some (className p) \<and>
        confidence item = Some (Math_round (probability p * 100)))"
proof (rule conjI)
  show "(\<forall>p \<in> set ps. probability p < MIN_CONFIDENCE) \<longrightarrow>
      recognize_predictions ps = [] \<and> foodResults ps = [] \<and> fuzzy_loop ps [] = [] \<and>
      recognizeFood (Inr (\<lambda>img k. Inr ps)) imageElement = Inr []"
  proof
    assume low: "\<forall>p \<in> set ps. probability p < MIN_CONFIDENCE"
    then have d: "foodResults ps = []"
      by (rule foodResults_below_threshold)
    from low have f: "fuzzy_loop ps [] = []"
      by (rule fuzzy_loop_below_threshold)
    from d f have r: "recognize_predictions ps = []"
      by (simp add: recognize_predictions_cases fuzzyMatchFoods_def)
    from d f r show "recognize_predictions ps = [] \<and> foodResults ps = [] \<and>
        fuzzy_loop ps [] = [] \<and> recognizeFood (Inr (\<lambda>img k. Inr ps)) imageElement = Inr []"
      by (simp add: recognizeFood_def)
  qed
  show "\<forall>item \<in> set (recognize_predictions qs).
      \<exists>p \<in> set qs. MIN_CONFIDENCE \<le> probability p \<and>
        originalClass item = Some (className p) \<and>
        confidence item = Some (Math_round (probability p * 100))"
    using recognize_predictions_origin by blast
qed

lemma low_confidence_below:
  "\<forall>p \<in> set low_confidence. probability p < MIN_CONFIDENCE"
  by (simp add: low_confidence_def pred_def MIN_CONFIDENCE_def)

lemma recognize_pizza_and_tilapia_origin:
  "map originalClass (foodResults pizza_and_tilapia) = [Some ''pizza, pizza pie''] \<and>
   map confidence (foodResults pizza_and_tilapia) = [Some 60]"
  by code_simp

theorem recognize_below_threshold_empty_witness:
  "length low_confidence = 2 \<and>
   list_all (\<lambda>p. probability p < MIN_CONFIDENCE) low_confidence \<and>
   recognize_predictions low_confidence = [] \<and>
   recognizeFood (Inr (\<lambda>img k. Inr low_confidence)) () = Inr [] \<and>
   map originalClass (recognize_predictions pizza_and_tilapia) = [Some ''pizza, pizza pie''] \<and>
   map confidence (recognize_predictions pizza_and_tilapia) = [Some 60]"
proof -
  from foodResults_pizza_and_tilapia have "foodResults pizza_and_tilapia \<noteq> []"
    by auto
  then have "recognize_predictions pizza_and_tilapia = foodResults pizza_and_tilapia"
    by (simp add: recognize_predictions_cases)
  with recognize_below_threshold_empty [of low_confidence "()" pizza_and_tilapia]
    low_confidence_below recognize_pizza_and_tilapia_origin
  show ?thesis
    by (simp add: list_all_iff low_confidence_def)
qed

lemma threshold_mass:
  "\<forall>p \<in> set ps. 0 \<le> probability p \<Longrightarrow>
   MIN_CONFIDENCE * of_nat (length (filter (\<lambda>p. probability p \<ge> MIN_CONFIDENCE) ps))
     \<le> sum_list (map probability ps)"
proof (induction ps)
  case Nil
  show ?case by simp
next
  case (Cons p ps)
  then have ih: "MIN_CONFIDENCE * of_nat (length (filter (\<lambda>p. probability p \<ge> MIN_CONFIDENCE) ps))
     \<le> sum_list (map probability ps)" and nonneg: "0 \<le> probability p"
    by simp_all
  show ?case
  proof (cases "probability p \<ge> MIN_CONFIDENCE")
    case True
    with ih show ?thesis
      by (simp add: algebra_simps)
  next
    case False
    with ih nonneg show ?thesis
      by simp
  qed
qed

text \<open>At most three probabilities of a distribution reach the threshold of 0.3.\<close>

lemma threshold_count:
  assumes "\<forall>p \<in> set ps. 0 \<le> probability p" and "sum_list (map probability ps) \<le> 1"
  shows "length (filter (\<lambda>p. probability p \<ge> MIN_CONFIDENCE) ps) \<le> MAX_RESULTS"
proof -
  let ?n = "length (filter (\<lambda>p. probability p \<ge> MIN_CONFIDENCE) ps)"
  from threshold_mass [OF assms(1)] assms(2) have "MIN_CONFIDENCE * of_nat ?n \<le> 1"
    by (rule order_trans)
  then have "(of_nat ?n :: rat) \<le> 10 / 3"
    by (simp add: MIN_CONFIDENCE_def field_simps)
  also have "\<dots> < of_nat 4"
    by simp
  finally have "?n < 4"
    by (simp only: of_nat_less_iff)
  then show ?thesis
    by (simp add: MAX_RESULTS_def)
qed

lemma length_foodResults_threshold:
  "length (foodResults ps) \<le> length (filter (\<lambda>p. probability p \<ge> MIN_CONFIDENCE) ps)"
proof -
  let ?kept = "filter (\<lambda>pred. probability pred \<ge> MIN_CONFIDENCE) ps"
  have "length (foodResults ps) \<le> length (map mapToFoodItem ?kept)"
    unfolding foodResults_def length_map [of the] by (rule length_filter_le)
  then show ?thesis
    by simp
qed

text \<open>
  Claim C8. For every classifier output sequence, whichever path produces the records, the
  result has at most \<open>MAX_RESULTS\<close> records. The fuzzy path slices its result. The direct
  path emits at most one record per prediction at or above \<open>MIN_CONFIDENCE\<close>: a sequence of
  probabilities (non-negative, adding up to at most one) has at most three of those, and
  a classifier that returns no more predictions than the \<open>MAX_RESULTS\<close> it is asked for at
  line 63 has at most \<open>MAX_RESULTS\<close> predictions in all.
\<close>

theorem recognizeFood_at_most_MAX_RESULTS:
  "length (fuzzyMatchFoods ps) \<le> MAX_RESULTS \<and>
   length (foodResults ps) \<le> length ps \<and>
   (length ps \<le> MAX_RESULTS \<longrightarrow> length (recognize_predictions ps) \<le> MAX_RESULTS) \<and>
   ((\<forall>p \<in> set ps. 0 \<le> probability p) \<and> sum_list (map probability ps) \<le> 1 \<longrightarrow>
      length (recognize_predictions ps) \<le> MAX_RESULTS) \<and>
   ((\<forall>p \<in> set qs. 0 \<le> probability p) \<and> sum_list (map probability qs) \<le> 1 \<and>
    recognizeFood (Inr (\<lambda>img k. Inr qs)) imageElement = Inr results \<longrightarrow>
      length results \<le> MAX_RESULTS) \<and>
   ((\<forall>k qs. loadedModel imageElement k = Inr qs \<longrightarrow> length qs \<le> k) \<and>
    recognizeFood (Inr loadedModel) imageElement = Inr results \<longrightarrow>
      length results \<le> MAX_RESULTS)"
proof (intro conjI impI)
  show "length (fuzzyMatchFoods ps) \<le> MAX_RESULTS"
    by (rule length_fuzzyMatchFoods)
  show "length (foodResults ps) \<le> length ps"
    by (rule length_foodResults)
  have bounded: "length (recognize_predictions qs) \<le> MAX_RESULTS"
    if "length qs \<le> MAX_RESULTS" for qs
    using that length_foodResults [of qs] length_fuzzyMatchFoods [of qs]
    by (simp add: recognize_predictions_cases)
  then show "length (recognize_predictions ps) \<le> MAX_RESULTS" if "length ps \<le> MAX_RESULTS"
    using that .
  have distribution: "length (recognize_predictions qs) \<le> MAX_RESULTS"
    if "(\<forall>p \<in> set qs. 0 \<le> probability p) \<and> sum_list (map probability qs) \<le> 1" for qs
  proof -
    from that have "length (filter (\<lambda>p. probability p \<ge> MIN_CONFIDENCE) qs) \<le> MAX_RESULTS"
      by (intro threshold_count) auto
    with length_foodResults_threshold [of qs] have "length (foodResults qs) \<le> MAX_RESULTS"
      by (rule order_trans)
    with length_fuzzyMatchFoods [of qs] show ?thesis
      by (simp add: recognize_predictions_cases)
  qed
  then show "length (recognize_predictions ps) \<le> MAX_RESULTS"
    if "(\<forall>p \<in> set ps. 0 \<le> probability p) \<and> sum_list (map probability ps) \<le> 1"
    using that .
  show "length results \<le> MAX_RESULTS"
    if h: "(\<forall>p \<in> set qs. 0 \<le> probability p) \<and> sum_list (map probability qs) \<le> 1 \<and>
      recognizeFood (Inr (\<lambda>img k. Inr qs)) imageElement = Inr results"
  proof -
    from h have "results = recognize_predictions qs"
      by (simp add: recognizeFood_def)
    with h distribution [of qs] show ?thesis
      by simp
  qed
  show "length results \<le> MAX_RESULTS"
    if h: "(\<forall>k qs. loadedModel imageElement k = Inr qs \<longrightarrow> length qs \<le> k) \<and>
      recognizeFood (Inr loadedModel) imageElement = Inr results"
  proof -
    from h obtain qs where qs: "loadedModel imageElement MAX_RESULTS = Inr qs"
      and res: "results = recognize_predictions qs"
      by (auto simp: recognizeFood_def split: sum.splits)
    from h qs have "length qs \<le> MAX_RESULTS"
      by blast
    with res show ?thesis
      by (simp add: bounded)
  qed
qed

lemma ranked_foods_distribution:
  "(\<forall>p \<in> set ranked_foods. 0 \<le> probability p) \<and> sum_list (map probability ranked_foods) \<le> 1"
  by (simp add: ranked_foods_def pred_def)

lemma top_k_model_honours_count:
  "\<forall>k qs. top_k_model () k = Inr qs \<longrightarrow> length qs \<le> k"
  by (auto simp: top_k_model_def)

lemma recognizeFood_top_k_model:
  "recognizeFood (Inr top_k_model) () =
     Inr (recognize_predictions (take MAX_RESULTS ranked_foods))"
  by (simp add: recognizeFood_def top_k_model_def)

lemma foodResults_top_three:
  "map name (foodResults (take MAX_RESULTS ranked_foods)) = [''Pizza'', ''Cheeseburger'', ''Bagel'']"
  by code_simp

lemma foodResults_ranked_foods:
  "map name (foodResults ranked_foods) = [''Pizza'', ''Cheeseburger'', ''Bagel'']"
  by code_simp

theorem recognizeFood_at_most_MAX_RESULTS_witness:
  "length ranked_foods = 4 \<and>
   list_all (\<lambda>p. 0 \<le> probability p) ranked_foods \<and>
   sum_list (map probability ranked_foods) = 1 \<and>
   map name (recognize_predictions ranked_foods) = [''Pizza'', ''Cheeseburger'', ''Bagel''] \<and>
   length (recognize_predictions ranked_foods) \<le> MAX_RESULTS \<and>
   recognizeFood (Inr top_k_model) () =
     Inr (recognize_predictions (take MAX_RESULTS ranked_foods)) \<and>
   map name (recognize_predictions (take MAX_RESULTS ranked_foods)) =
     [''Pizza'', ''Cheeseburger'', ''Bagel''] \<and>
   length (recognize_predictions (take MAX_RESULTS ranked_foods)) \<le> MAX_RESULTS"
proof -
  from foodResults_top_three have "foodResults (take MAX_RESULTS ranked_foods) \<noteq> []"
    by auto
  then have top: "recognize_predictions (take MAX_RESULTS ranked_foods) =
      foodResults (take MAX_RESULTS ranked_foods)"
    by (simp add: recognize_predictions_cases)
  from foodResults_ranked_foods have "foodResults ranked_foods \<noteq> []"
    by auto
  then have all: "recognize_predictions ranked_foods = foodResults ranked_foods"
    by (simp add: recognize_predictions_cases)
  have facts: "length ranked_foods = 4 \<and> list_all (\<lambda>p. 0 \<le> probability p) ranked_foods \<and>
      sum_list (map probability ranked_foods) = 1"
    by (simp add: ranked_foods_def pred_def)
  from recognizeFood_at_most_MAX_RESULTS
      [of ranked_foods _ _ _ top_k_model]
    ranked_foods_distribution
  have b1: "length (recognize_predictions ranked_foods) \<le> MAX_RESULTS"
    by blast
  from recognizeFood_at_most_MAX_RESULTS
      [of _ _ "()" "recognize_predictions (take MAX_RESULTS ranked_foods)" top_k_model]
    top_k_model_honours_count recognizeFood_top_k_model
  have b2: "length (recognize_predictions (take MAX_RESULTS ranked_foods)) \<le> MAX_RESULTS"
    by blast
  from facts b1 b2 recognizeFood_top_k_model foodResults_top_three foodResults_ranked_foods
  show ?thesis
    unfolding top all by blast
qed

lemma foodResults_two_crabs:
  "map item_id (foodResults two_crabs) = [Some ''recognized-crab'', Some ''recognized-crab'']"
  by code_simp

lemma fuzzy_ids_tilapia_and_edamame:
  "map item_id (fuzzyMatchFoods tilapia_and_edamame) = [Some ''common-0'', Some ''common-0'']"
  by code_simp

text \<open>
  Claim C9 at two classifier outputs. Two crab classes both map to the key \<open>crab\<close>, and the
  direct path returns two records with the identifier \<open>recognized-crab\<close>; two labels
  without a direct mapping both take the first result of their own common-food search, and
  the fuzzy path returns two records with the identifier \<open>common-0\<close>.
\<close>

theorem recognize_duplicate_ids:
  "map item_id (recognize_predictions two_crabs) =
     [Some ''recognized-crab'', Some ''recognized-crab''] \<and>
   \<not> distinct (map item_id (recognize_predictions two_crabs)) \<and>
   map item_id (recognize_predictions tilapia_and_edamame) =
     [Some ''common-0'', Some ''common-0''] \<and>
   \<not> distinct (map item_id (recognize_predictions tilapia_and_edamame))"
proof -
  from foodResults_two_crabs have "foodResults two_crabs \<noteq> []"
    by auto
  then have "recognize_predictions two_crabs = foodResults two_crabs"
    by (simp add: recognize_predictions_cases)
  then have crabs: "map item_id (recognize_predictions two_crabs) =
     [Some ''recognized-crab'', Some ''recognized-crab'']"
    by (simp only: foodResults_two_crabs)
  have "recognize_predictions tilapia_and_edamame = fuzzyMatchFoods tilapia_and_edamame"
    by (simp add: recognize_predictions_cases foodResults_tilapia_and_edamame)
  then have fuzzy: "map item_id (recognize_predictions tilapia_and_edamame) =
     [Some ''common-0'', Some ''common-0'']"
    by (simp only: fuzzy_ids_tilapia_and_edamame)
  show ?thesis
    unfolding crabs fuzzy by simp
qed

end
